theory Spec2Isabelle
  imports Complex_Main "HOL-Library.Word"
begin

unbundle bit_operations_syntax

section \<open>The bus collaborator\<close>

text \<open>
  The driver talks to the oscillator through an \<open>sfTkII2C\<close> object of the SparkFun
  Toolkit. The toolkit is an external library; the driver only looks at the error code
  of each transaction, at the bytes a register read delivers and at their count.
\<close>

datatype sfTkError_t = ksfTkErrOk | ksfTkErrFail

datatype bus_request =
    Ping
  | ReadRegisterRegion "8 word" nat
  | WriteRegisterRegion "8 word" "8 word list"

datatype bus_reply = BusReply (status: sfTkError_t) (payload: "8 word list")

text \<open>
  Modelled from the spec: the bus transport (\<open>ping\<close>, \<open>readRegisterRegion\<close>,
  \<open>writeRegisterRegion\<close> of the toolkit's \<open>sfTkII2C\<close>) is missing from the sources.
  A bus is the sequence of answers the device will give, one for each transaction, and
  the history of the transactions made so far. Every non-Ok error code of the toolkit is
  represented by \<open>ksfTkErrFail\<close>.
\<close>

record sfTkII2C =
  script :: "nat \<Rightarrow> bus_reply"
  history :: "bus_request list"

definition transact :: "bus_request \<Rightarrow> sfTkII2C \<Rightarrow> bus_reply \<times> sfTkII2C" where
  "transact rq bus = (script bus (length (history bus)), bus\<lparr>history := history bus @ [rq]\<rparr>)"

definition ping :: "sfTkII2C \<Rightarrow> sfTkError_t \<times> sfTkII2C" where
  "ping bus = (let (r, bus') = transact Ping bus in (status r, bus'))"

text \<open>
  A register read hands back at most the \<open>numBytes\<close> bytes asked for, and their count
  \<open>readBytes\<close>.
\<close>

definition readRegisterRegion ::
  "8 word \<Rightarrow> nat \<Rightarrow> sfTkII2C \<Rightarrow> sfTkError_t \<times> 8 word list \<times> nat \<times> sfTkII2C" where
  "readRegisterRegion reg numBytes bus =
     (let (r, bus') = transact (ReadRegisterRegion reg numBytes) bus;
          theData = take numBytes (payload r)
      in (status r, theData, length theData, bus'))"

definition writeRegisterRegion ::
  "8 word \<Rightarrow> 8 word list \<Rightarrow> sfTkII2C \<Rightarrow> sfTkError_t \<times> sfTkII2C" where
  "writeRegisterRegion reg theData bus =
     (let (r, bus') = transact (WriteRegisterRegion reg theData) bus in (status r, bus'))"

section \<open>Constants of the device\<close>

text \<open>The register addresses and the largest control word, as the library header declares
  them. The frequency resolution of one step follows the floating-point values below.\<close>

definition kSfeSTP3593LFRegReadFrequencyControl :: "8 word" where
  "kSfeSTP3593LFRegReadFrequencyControl = 0x41"

definition kSfeSTP3593LFRegWriteDAC :: "8 word" where
  "kSfeSTP3593LFRegWriteDAC = 0xA0"

definition kSfeSTP3593LFFreqControlMaxValue :: "32 word" where
  "kSfeSTP3593LFFreqControlMaxValue = 1000000"

section \<open>Floating-point values\<close>

text \<open>
  A \<open>double\<close> is a finite number, an infinity or NaN. Arithmetic on finite numbers is
  exact: the rounding of the binary format, overflow to an infinity and the negative
  zero are not part of the model. On NaN and the infinities the operations follow
  IEEE 754: NaN propagates, every comparison with NaN is false, and
  \<open>\<infinity> - \<infinity>\<close>, \<open>0 * \<infinity>\<close> and \<open>\<infinity> / \<infinity>\<close> are NaN.
\<close>

datatype double = Fin real | PInf | MInf | NaN

fun dminus :: "double \<Rightarrow> double" where
  "dminus (Fin a) = Fin (- a)"
| "dminus PInf = MInf"
| "dminus MInf = PInf"
| "dminus NaN = NaN"

fun dadd :: "double \<Rightarrow> double \<Rightarrow> double" where
  "dadd NaN y = NaN"
| "dadd x NaN = NaN"
| "dadd (Fin a) (Fin b) = Fin (a + b)"
| "dadd PInf MInf = NaN"
| "dadd MInf PInf = NaN"
| "dadd PInf y = PInf"
| "dadd x PInf = PInf"
| "dadd MInf y = MInf"
| "dadd x MInf = MInf"

definition dsub :: "double \<Rightarrow> double \<Rightarrow> double" where
  "dsub x y = dadd x (dminus y)"

fun dmul :: "double \<Rightarrow> double \<Rightarrow> double" where
  "dmul NaN y = NaN"
| "dmul x NaN = NaN"
| "dmul (Fin a) (Fin b) = Fin (a * b)"
| "dmul PInf (Fin b) = (if b = 0 then NaN else if b > 0 then PInf else MInf)"
| "dmul MInf (Fin b) = (if b = 0 then NaN else if b > 0 then MInf else PInf)"
| "dmul (Fin a) PInf = (if a = 0 then NaN else if a > 0 then PInf else MInf)"
| "dmul (Fin a) MInf = (if a = 0 then NaN else if a > 0 then MInf else PInf)"
| "dmul PInf PInf = PInf"
| "dmul PInf MInf = MInf"
| "dmul MInf PInf = MInf"
| "dmul MInf MInf = PInf"

text \<open>The source divides by the literals \<open>1000.0\<close> and \<open>8e-13\<close> only; a zero divisor is
  the positive zero.\<close>

fun ddiv :: "double \<Rightarrow> double \<Rightarrow> double" where
  "ddiv NaN y = NaN"
| "ddiv x NaN = NaN"
| "ddiv (Fin a) (Fin b) =
     (if b = 0 then (if a = 0 then NaN else if a > 0 then PInf else MInf) else Fin (a / b))"
| "ddiv (Fin a) PInf = Fin 0"
| "ddiv (Fin a) MInf = Fin 0"
| "ddiv PInf (Fin b) = (if b \<ge> 0 then PInf else MInf)"
| "ddiv MInf (Fin b) = (if b \<ge> 0 then MInf else PInf)"
| "ddiv PInf PInf = NaN"
| "ddiv PInf MInf = NaN"
| "ddiv MInf PInf = NaN"
| "ddiv MInf MInf = NaN"

fun dle :: "double \<Rightarrow> double \<Rightarrow> bool" where
  "dle NaN y = False"
| "dle x NaN = False"
| "dle (Fin a) (Fin b) = (a \<le> b)"
| "dle MInf y = True"
| "dle x PInf = True"
| "dle PInf y = False"
| "dle x MInf = False"

fun dlt :: "double \<Rightarrow> double \<Rightarrow> bool" where
  "dlt NaN y = False"
| "dlt x NaN = False"
| "dlt (Fin a) (Fin b) = (a < b)"
| "dlt PInf y = False"
| "dlt x MInf = False"
| "dlt MInf y = True"
| "dlt x PInf = True"

definition dge :: "double \<Rightarrow> double \<Rightarrow> bool" where
  "dge x y = dle y x"

definition dgt :: "double \<Rightarrow> double \<Rightarrow> bool" where
  "dgt x y = dlt y x"

text \<open>\<open>round\<close> of the C library rounds halfway cases away from zero.\<close>

definition c_round :: "real \<Rightarrow> real" where
  "c_round x = (if x \<ge> 0 then of_int \<lfloor>x + 1 / 2\<rfloor> else - of_int \<lfloor>- x + 1 / 2\<rfloor>)"

fun d_round :: "double \<Rightarrow> double" where
  "d_round (Fin x) = Fin (c_round x)"
| "d_round PInf = PInf"
| "d_round MInf = MInf"
| "d_round NaN = NaN"

text \<open>
  The conversion of a \<open>double\<close> to \<open>uint32_t\<close> drops the fraction. C++ defines it only
  when the truncated value is one of \<open>0 .. 2^32 - 1\<close>; for every other value (a number
  at or below \<open>- 1\<close> or at or above \<open>2^32\<close>, an infinity, NaN) the behaviour is
  undefined. What the platform yields there is the parameter \<open>conv\<close> of the model.
\<close>

definition double_to_uint32 :: "(double \<Rightarrow> 32 word) \<Rightarrow> double \<Rightarrow> 32 word" where
  "double_to_uint32 conv v =
     (case v of
        Fin x \<Rightarrow>
          if - 1 < x \<and> x < 4294967296
          then word_of_int (if x \<ge> 0 then \<lfloor>x\<rfloor> else \<lceil>x\<rceil>)
          else conv v
      | _ \<Rightarrow> conv v)"

definition uint32_to_double :: "32 word \<Rightarrow> double" where
  "uint32_to_double w = Fin (of_int (uint w))"

definition kSfeSTP3593LFFreqControlResolution :: double where
  "kSfeSTP3593LFFreqControlResolution = Fin (8 / 10 ^ 13)"

section \<open>The driver\<close>

text \<open>
  The driver object holds a pointer to its bus; here the bus object itself is a field,
  so a driver always has a bus attached. \<open>begin\<close> is the operation that attaches it.
\<close>

record sfDevSTP3593LF =
  theBus :: sfTkII2C
  frequencyControl :: "32 word"
  maxFrequencyChangePPB :: double

subsection \<open>Register codec\<close>

text \<open>Lines 58 to 67 of \<open>readFrequencyControlWord\<close>: the four bytes, most significant
  first, and the bounds check.\<close>

definition extractControlWord :: "8 word list \<Rightarrow> 32 word" where
  "extractControlWord theBytes =
     (let frequencyControl = push_bit 24 (ucast (theBytes ! 0) :: 32 word);
          frequencyControl = frequencyControl OR push_bit 16 (ucast (theBytes ! 1));
          frequencyControl = frequencyControl OR push_bit 8 (ucast (theBytes ! 2));
          frequencyControl = frequencyControl OR push_bit 0 (ucast (theBytes ! 3))
      in frequencyControl)"

definition decodeControlWord :: "8 word list \<Rightarrow> 32 word option" where
  "decodeControlWord theBytes =
     (let frequencyControl = extractControlWord theBytes
      in if frequencyControl > kSfeSTP3593LFFreqControlMaxValue then None
         else Some frequencyControl)"

text \<open>Lines 87 to 93 of \<open>setFrequencyControlWord\<close>: the limit, then the four bytes.\<close>

definition limitControlWord :: "32 word \<Rightarrow> 32 word" where
  "limitControlWord freq =
     (if freq > kSfeSTP3593LFFreqControlMaxValue then kSfeSTP3593LFFreqControlMaxValue
      else freq)"

definition controlWordBytes :: "32 word \<Rightarrow> 8 word list" where
  "controlWordBytes freq =
     [ucast (drop_bit 24 freq AND 0xFF),
      ucast (drop_bit 16 freq AND 0xFF),
      ucast (drop_bit 8 freq AND 0xFF),
      ucast (drop_bit 0 freq AND 0xFF)]"

definition encodeControlWord :: "32 word \<Rightarrow> 8 word list" where
  "encodeControlWord freq = controlWordBytes (limitControlWord freq)"

subsection \<open>Reading and writing the control word\<close>

definition readFrequencyControlWord :: "sfDevSTP3593LF \<Rightarrow> bool \<times> sfDevSTP3593LF" where
  "readFrequencyControlWord d =
     (let (err, theBytes, readBytes, bus') =
            readRegisterRegion kSfeSTP3593LFRegReadFrequencyControl 4 (theBus d);
          d = d\<lparr>theBus := bus'\<rparr>
      in if err \<noteq> ksfTkErrOk then (False, d)
         else if readBytes \<noteq> 4 then (False, d)
         else (case decodeControlWord theBytes of
                 None \<Rightarrow> (False, d)
               | Some fc \<Rightarrow> (True, d\<lparr>frequencyControl := fc\<rparr>)))"

definition getFrequencyControlWord :: "sfDevSTP3593LF \<Rightarrow> 32 word" where
  "getFrequencyControlWord d = frequencyControl d"

definition setFrequencyControlWord :: "32 word \<Rightarrow> sfDevSTP3593LF \<Rightarrow> bool \<times> sfDevSTP3593LF" where
  "setFrequencyControlWord freq d =
     (let freq = limitControlWord freq;
          theBytes = controlWordBytes freq;
          (err, bus') = writeRegisterRegion kSfeSTP3593LFRegWriteDAC theBytes (theBus d);
          d = d\<lparr>theBus := bus'\<rparr>
      in if err \<noteq> ksfTkErrOk then (False, d)
         else (True, d\<lparr>frequencyControl := freq\<rparr>))"

definition getMaxFrequencyChangePPB :: "sfDevSTP3593LF \<Rightarrow> double" where
  "getMaxFrequencyChangePPB d = maxFrequencyChangePPB d"

definition setMaxFrequencyChangePPB :: "double \<Rightarrow> sfDevSTP3593LF \<Rightarrow> sfDevSTP3593LF" where
  "setMaxFrequencyChangePPB ppb d = d\<lparr>maxFrequencyChangePPB := ppb\<rparr>"

subsection \<open>Start-up\<close>

text \<open>
  \<open>begin\<close> (here \<open>begin_driver\<close>) takes a pointer to the bus: \<open>None\<close> is the null
  pointer. The control-word register is read twice.
\<close>

definition begin_driver :: "sfTkII2C option \<Rightarrow> sfDevSTP3593LF \<Rightarrow> sfTkError_t \<times> sfDevSTP3593LF" where
  "begin_driver commBus d =
     (case commBus of
        None \<Rightarrow> (ksfTkErrFail, d)
      | Some bus \<Rightarrow>
          (let d = d\<lparr>theBus := bus\<rparr>;
               (err, bus') = ping (theBus d);
               d = d\<lparr>theBus := bus'\<rparr>
           in if err \<noteq> ksfTkErrOk then (ksfTkErrFail, d)
              else (let (ok1, d) = readFrequencyControlWord d
                    in if ok1
                       then (let (ok2, d) = readFrequencyControlWord d
                             in (if ok2 then ksfTkErrOk else ksfTkErrFail, d))
                       else (ksfTkErrFail, d))))"

subsection \<open>Steering by the receiver clock bias\<close>

text \<open>
  \<open>I\<close> and \<open>initialized\<close> are local static variables of
  \<open>setFrequencyByBiasMillis\<close>: one pair for the whole program, zero-initialised at
  start-up, kept from call to call, and not a member of the driver object.
\<close>

record steering_statics =
  I :: double
  initialized :: bool

definition steering_statics_startup :: steering_statics where
  "steering_statics_startup = \<lparr>I = Fin 0, initialized = False\<rparr>"

text \<open>Lines 133 to 140: the bias as an error in seconds, then in control-word steps.\<close>

definition biasToError :: "double \<Rightarrow> double" where
  "biasToError bias =
     (let error = dsub (Fin 0) bias;
          error = ddiv error (Fin 1000)
      in error)"

definition biasToLSBs :: "double \<Rightarrow> double" where
  "biasToLSBs bias = ddiv (biasToError bias) kSfeSTP3593LFFreqControlResolution"

text \<open>Line 143.\<close>

definition maxChangeInLSBs :: "double \<Rightarrow> double" where
  "maxChangeInLSBs ppb =
     ddiv (dmul ppb (Fin (1 / 10 ^ 9))) kSfeSTP3593LFFreqControlResolution"

text \<open>Lines 145 to 155. Both comparisons are false for NaN, which passes unchanged.\<close>

definition limitChangeInLSBs :: "double \<Rightarrow> double \<Rightarrow> double" where
  "limitChangeInLSBs requiredChange maxChange =
     (if dge requiredChange (Fin 0)
      then (if dgt requiredChange maxChange then maxChange else requiredChange)
      else (if dlt requiredChange (dsub (Fin 0) maxChange) then dsub (Fin 0) maxChange
            else requiredChange))"

definition requiredChangeInLSBs :: "double \<Rightarrow> double \<Rightarrow> double" where
  "requiredChangeInLSBs bias ppb = limitChangeInLSBs (biasToLSBs bias) (maxChangeInLSBs ppb)"

text \<open>Lines 125 to 131: on the first call the integrator starts from the cached control
  word.\<close>

definition seedIntegrator :: "steering_statics \<Rightarrow> sfDevSTP3593LF \<Rightarrow> steering_statics" where
  "seedIntegrator st d =
     (if \<not> initialized st
      then st\<lparr>I := uint32_to_double (frequencyControl d), initialized := True\<rparr>
      else st)"

text \<open>
  Lines 123 to 162. The statics are passed in and handed back beside the driver object.
  The limited change is the variable \<open>requiredChangeInLSBs\<close> of the source after line 155.
\<close>

definition setFrequencyByBiasMillis ::
  "(double \<Rightarrow> 32 word) \<Rightarrow> double \<Rightarrow> double \<Rightarrow> double \<Rightarrow> steering_statics \<times> sfDevSTP3593LF
     \<Rightarrow> bool \<times> steering_statics \<times> sfDevSTP3593LF" where
  "setFrequencyByBiasMillis conv bias Pk Ik = (\<lambda>(st, d).
     (let st = seedIntegrator st d;
          change = requiredChangeInLSBs bias (maxFrequencyChangePPB d);
          P = dmul change Pk;
          dI = dmul change Ik;
          st = st\<lparr>I := dadd (I st) dI\<rparr>;
          (ok, d) = setFrequencyControlWord (double_to_uint32 conv (d_round (dadd P (I st)))) d
      in (ok, st, d)))"

section \<open>Notions used to state the properties\<close>

text \<open>The number that a sequence of bytes denotes when the most significant byte comes
  first.\<close>

definition big_endian_value :: "8 word list \<Rightarrow> nat" where
  "big_endian_value bs = foldl (\<lambda>acc b. acc * 256 + unat b) 0 bs"

text \<open>A register read is accepted when the transaction succeeds, delivers the four
  bytes and they denote a value within the control range.\<close>

definition frame_accepted :: "bus_reply \<Rightarrow> bool" where
  "frame_accepted r \<longleftrightarrow>
     status r = ksfTkErrOk \<and> 4 \<le> length (payload r) \<and>
     big_endian_value (take 4 (payload r)) \<le> 1000000"

text \<open>The answer the bus will give to its next transaction.\<close>

definition next_reply :: "sfTkII2C \<Rightarrow> bus_reply" where
  "next_reply bus = script bus (length (history bus))"

definition register_reads :: "bus_request list \<Rightarrow> nat" where
  "register_reads rqs =
     length (filter (\<lambda>rq. case rq of ReadRegisterRegion reg n \<Rightarrow> True | _ \<Rightarrow> False) rqs)"

text \<open>A bus that gives the listed answers in turn and fails afterwards, with an empty
  history; and a driver with given bus, cached control word and rate limit.\<close>

definition scripted_bus :: "bus_reply list \<Rightarrow> sfTkII2C" where
  "scripted_bus rs =
     \<lparr>script = (\<lambda>n. if n < length rs then rs ! n else BusReply ksfTkErrFail []), history = []\<rparr>"

definition driver_with :: "sfTkII2C \<Rightarrow> 32 word \<Rightarrow> real \<Rightarrow> sfDevSTP3593LF" where
  "driver_with bus c ppb =
     \<lparr>theBus = bus, frequencyControl = c, maxFrequencyChangePPB = Fin ppb\<rparr>"




definition saturating_conversion :: "double \<Rightarrow> 32 word" where
  "saturating_conversion v =
     (case v of
        Fin x \<Rightarrow> if x < 0 then 0 else - 1
      | PInf \<Rightarrow> - 1
      | _ \<Rightarrow> 0)"

section \<open>Codec lemmas\<close>

lemma ff_mask: "(0xFF :: 32 word) = mask 8"
  by (simp add: mask_eq_exp_minus_1)

lemma unat_byte:
  "unat (ucast (drop_bit k w AND (0xFF :: 32 word)) :: 8 word) = unat w div 2 ^ k mod 256"
proof -
  have 1: "drop_bit k w AND 0xFF = take_bit 8 (drop_bit k w)"
    by (simp only: ff_mask take_bit_eq_mask)
  have 2: "unat (ucast (take_bit 8 x) :: 8 word) = take_bit 8 (unat x)" for x :: "32 word"
    by (simp add: unsigned_ucast_eq unsigned_take_bit_eq)
  have 3: "unat (drop_bit k w) = unat w div 2 ^ k"
    by (simp only: unat_drop_bit_eq) (simp only: drop_bit_eq_div)
  have "unat (ucast (drop_bit k w AND 0xFF) :: 8 word) = take_bit 8 (unat (drop_bit k w))"
    by (simp only: 1 2)
  also have "\<dots> = unat w div 2 ^ k mod 256"
    by (simp only: 3 take_bit_eq_mod) simp
  finally show ?thesis .
qed

lemma digits32:
  fixes n :: nat
  assumes "n < 2 ^ 32"
  shows "(((0 * 256 + n div 2 ^ 24 mod 256) * 256 + n div 2 ^ 16 mod 256) * 256
           + n div 2 ^ 8 mod 256) * 256 + n div 2 ^ 0 mod 256 = n"
proof -
  define a where "a = n div 2 ^ 8"
  define b where "b = a div 256"
  define c where "c = b div 256"
  have c: "c < 256" using assms unfolding a_def b_def c_def by simp
  have ea: "n div 2 ^ 8 = a" by (simp add: a_def)
  have eb: "n div 2 ^ 16 = b" unfolding b_def a_def by (simp add: div_mult2_eq [symmetric])
  have ec: "n div 2 ^ 24 = c" unfolding c_def b_def a_def by (simp add: div_mult2_eq [symmetric])
  have "(((0 * 256 + c mod 256) * 256 + b mod 256) * 256 + a mod 256) * 256 + n div 2 ^ 0 mod 256 = n"
    using c unfolding c_def b_def a_def by simp
  then show ?thesis by (simp only: ea eb ec)
qed

lemma big_endian_bytes: "big_endian_value (controlWordBytes w) = unat w"
proof -
  have "unat w < 2 ^ 32" using unsigned_less [of w] by simp
  from digits32 [OF this] show ?thesis
    by (simp only: big_endian_value_def controlWordBytes_def foldl.simps unat_byte)
qed

lemma length_controlWordBytes: "length (controlWordBytes w) = 4"
  by (simp add: controlWordBytes_def)

lemma bytes_extract:
  "controlWordBytes (extractControlWord [b0, b1, b2, b3]) = [b0, b1, b2, b3]"
  apply (simp add: controlWordBytes_def extractControlWord_def ff_mask)
  apply (intro conjI bit_word_eqI)
     apply (auto simp add: bit_simps dest: bit_imp_le_length)
  done

lemma four_list: "length bs = 4 \<Longrightarrow> bs = [bs ! 0, bs ! 1, bs ! 2, bs ! 3]"
  by (auto simp add: list_eq_iff_nth_eq less_Suc_eq numeral_eq_Suc)

lemma unat_extract:
  assumes "length bs = 4"
  shows "unat (extractControlWord bs) = big_endian_value bs"
proof -
  obtain b0 b1 b2 b3 where bs: "bs = [b0, b1, b2, b3]"
    using four_list [OF assms] by blast
  show ?thesis
    using big_endian_bytes [of "extractControlWord bs"] by (simp only: bs bytes_extract)
qed

lemma extract_bytes: "extractControlWord (controlWordBytes w) = w"
proof -
  have "unat (extractControlWord (controlWordBytes w)) = unat w"
    by (simp only: unat_extract [OF length_controlWordBytes] big_endian_bytes)
  then show ?thesis by (simp only: word_unat_eq_iff)
qed

lemma limit_le: "limitControlWord v \<le> kSfeSTP3593LFFreqControlMaxValue"
  by (simp add: limitControlWord_def not_less)

lemma limit_min: "limitControlWord v = min v kSfeSTP3593LFFreqControlMaxValue"
  by (auto simp add: limitControlWord_def min_def)

lemma unat_limit: "unat (limitControlWord v) = min (unat v) 1000000"
  by (auto simp add: limitControlWord_def kSfeSTP3593LFFreqControlMaxValue_def min_def word_less_nat_alt)

lemma decode_iff:
  assumes "length bs = 4"
  shows "decodeControlWord bs =
           (if big_endian_value bs \<le> 1000000 then Some (extractControlWord bs) else None)"
  using unat_extract [OF assms]
  by (simp add: decodeControlWord_def Let_def kSfeSTP3593LFFreqControlMaxValue_def word_less_nat_alt not_less)

section \<open>The operations, unfolded\<close>

lemma readFrequencyControlWord_raw:
  "readFrequencyControlWord d =
     (let r = next_reply (theBus d);
          d1 = d\<lparr>theBus := (theBus d)\<lparr>history := history (theBus d) @
                  [ReadRegisterRegion kSfeSTP3593LFRegReadFrequencyControl 4]\<rparr>\<rparr>;
          theBytes = take 4 (payload r)
      in if status r \<noteq> ksfTkErrOk then (False, d1)
         else if length theBytes \<noteq> 4 then (False, d1)
         else (case decodeControlWord theBytes of
                 None \<Rightarrow> (False, d1)
               | Some fc \<Rightarrow> (True, d1\<lparr>frequencyControl := fc\<rparr>)))"
  by (simp add: readFrequencyControlWord_def readRegisterRegion_def transact_def Let_def
      next_reply_def)

lemma readFrequencyControlWord_eq:
  "readFrequencyControlWord d =
     (let r = next_reply (theBus d);
          d1 = d\<lparr>theBus := (theBus d)\<lparr>history := history (theBus d) @
                  [ReadRegisterRegion kSfeSTP3593LFRegReadFrequencyControl 4]\<rparr>\<rparr>
      in if frame_accepted r
         then (True, d1\<lparr>frequencyControl := extractControlWord (take 4 (payload r))\<rparr>)
         else (False, d1))"
proof (cases "4 \<le> length (payload (next_reply (theBus d)))")
  case True
  then have len: "length (take 4 (payload (next_reply (theBus d)))) = 4" by simp
  show ?thesis
    unfolding readFrequencyControlWord_raw Let_def decode_iff [OF len] frame_accepted_def
    using True by simp
next
  case False
  then show ?thesis
    unfolding readFrequencyControlWord_raw Let_def frame_accepted_def by simp
qed

lemma setFrequencyControlWord_eq:
  "setFrequencyControlWord freq d =
     (let d1 = d\<lparr>theBus := (theBus d)\<lparr>history := history (theBus d) @
                  [WriteRegisterRegion kSfeSTP3593LFRegWriteDAC (encodeControlWord freq)]\<rparr>\<rparr>
      in if status (next_reply (theBus d)) = ksfTkErrOk
         then (True, d1\<lparr>frequencyControl := limitControlWord freq\<rparr>)
         else (False, d1))"
  by (simp add: setFrequencyControlWord_def writeRegisterRegion_def transact_def Let_def
      encodeControlWord_def next_reply_def)

section \<open>Rounding and conversion lemmas\<close>

lemma c_round_of_int: "c_round (of_int n) = of_int n"
  by (simp add: c_round_def)







lemma double_to_uint32_of_int:
  assumes "0 \<le> n" and "n < 4294967296"
  shows "double_to_uint32 conv (Fin (of_int n)) = word_of_int n"
  using assms by (simp add: double_to_uint32_def)


lemma uint32_bounds: "0 \<le> uint (w :: 32 word)" "uint (w :: 32 word) < 4294967296"
  using uint_bounded [of w] by simp_all




lemma limit_in_range:
  "w \<le> kSfeSTP3593LFFreqControlMaxValue \<Longrightarrow> limitControlWord w = w"
  by (simp add: limitControlWord_def not_less [symmetric])

lemma step_down:
  fixes c :: "32 word"
  assumes "3750 \<le> c"
  shows "double_to_uint32 conv (d_round (dadd (Fin (- 3750)) (uint32_to_double c))) = c - 3750"
proof -
  have "uint (3750 :: 32 word) \<le> uint c" using assms by (simp only: word_le_def)
  then have lo: "0 \<le> uint c - 3750" by simp
  have hi: "uint c - 3750 < 4294967296" using uint32_bounds(2) [of c] by simp
  have "dadd (Fin (- 3750)) (uint32_to_double c) = Fin (of_int (uint c - 3750))"
    by (simp add: uint32_to_double_def)
  then have "double_to_uint32 conv (d_round (dadd (Fin (- 3750)) (uint32_to_double c)))
      = word_of_int (uint c - 3750)"
    by (simp only: d_round.simps c_round_of_int double_to_uint32_of_int [OF lo hi])
  then show ?thesis by simp
qed

lemma step_down_le:
  fixes c :: "32 word"
  assumes "3750 \<le> c" and "c \<le> 1000000"
  shows "c - 3750 \<le> kSfeSTP3593LFFreqControlMaxValue"
proof -
  have "unat (c - 3750) = unat c - unat (3750 :: 32 word)"
    using assms(1) by (rule unat_sub)
  moreover have "unat c \<le> 1000000" using assms(2) by (simp add: word_le_nat_alt)
  ultimately show ?thesis
    by (simp add: word_le_nat_alt kSfeSTP3593LFFreqControlMaxValue_def)
qed

section \<open>Steering lemmas\<close>



lemma biasToLSBs_Fin: "biasToLSBs (Fin b) = Fin ((0 - b) / 1000 / (8 / 10 ^ 13))"
  by (simp add: biasToLSBs_def biasToError_def dsub_def kSfeSTP3593LFFreqControlResolution_def)


lemma maxChange_Fin: "maxChangeInLSBs (Fin p) = Fin (p * (1 / 10 ^ 9) / (8 / 10 ^ 13))"
  by (simp add: maxChangeInLSBs_def kSfeSTP3593LFFreqControlResolution_def)







lemma change_example: "requiredChangeInLSBs (Fin (200 / 10 ^ 6)) (Fin 3) = Fin (- 3750)"
  by (simp add: requiredChangeInLSBs_def limitChangeInLSBs_def maxChange_Fin biasToLSBs_Fin
      dge_def dgt_def dsub_def)

lemma seed_I:
  "I (seedIntegrator st d) = (if initialized st then I st else uint32_to_double (frequencyControl d))"
  by (simp add: seedIntegrator_def)

lemma seed_initialized: "initialized (seedIntegrator st d)"
  by (simp add: seedIntegrator_def)

lemma setFrequencyByBiasMillis_eq:
  "setFrequencyByBiasMillis conv bias Pk Ik (st, d) =
     (let change = requiredChangeInLSBs bias (maxFrequencyChangePPB d);
          st' = \<lparr>I = dadd (I (seedIntegrator st d)) (dmul change Ik), initialized = True\<rparr>;
          freq = double_to_uint32 conv (d_round (dadd (dmul change Pk) (I st')));
          d1 = d\<lparr>theBus := (theBus d)\<lparr>history := history (theBus d) @
                  [WriteRegisterRegion kSfeSTP3593LFRegWriteDAC (encodeControlWord freq)]\<rparr>\<rparr>
      in if status (next_reply (theBus d)) = ksfTkErrOk
         then (True, st', d1\<lparr>frequencyControl := limitControlWord freq\<rparr>)
         else (False, st', d1))"
  by (simp add: setFrequencyByBiasMillis_def setFrequencyControlWord_eq Let_def seedIntegrator_def)

lemma steer_fst:
  "fst (setFrequencyByBiasMillis conv bias Pk Ik (st, d)) =
     (status (next_reply (theBus d)) = ksfTkErrOk)"
  by (simp add: setFrequencyByBiasMillis_eq Let_def)

lemma steer_I:
  "I (fst (snd (setFrequencyByBiasMillis conv bias Pk Ik (st, d)))) =
     dadd (I (seedIntegrator st d)) (dmul (requiredChangeInLSBs bias (maxFrequencyChangePPB d)) Ik)"
  by (simp add: setFrequencyByBiasMillis_eq Let_def)

lemma steer_initialized:
  "initialized (fst (snd (setFrequencyByBiasMillis conv bias Pk Ik (st, d))))"
  by (simp add: setFrequencyByBiasMillis_eq Let_def)

lemma steer_frequencyControl:
  "frequencyControl (snd (snd (setFrequencyByBiasMillis conv bias Pk Ik (st, d)))) =
     (if status (next_reply (theBus d)) = ksfTkErrOk
      then limitControlWord (double_to_uint32 conv (d_round
             (dadd (dmul (requiredChangeInLSBs bias (maxFrequencyChangePPB d)) Pk)
                (dadd (I (seedIntegrator st d))
                   (dmul (requiredChangeInLSBs bias (maxFrequencyChangePPB d)) Ik)))))
      else frequencyControl d)"
  by (simp add: setFrequencyByBiasMillis_eq Let_def)

lemma steer_history:
  "history (theBus (snd (snd (setFrequencyByBiasMillis conv bias Pk Ik (st, d))))) =
     history (theBus d) @
     [WriteRegisterRegion kSfeSTP3593LFRegWriteDAC (encodeControlWord (double_to_uint32 conv (d_round
             (dadd (dmul (requiredChangeInLSBs bias (maxFrequencyChangePPB d)) Pk)
                (dadd (I (seedIntegrator st d))
                   (dmul (requiredChangeInLSBs bias (maxFrequencyChangePPB d)) Ik))))))]"
  by (simp add: setFrequencyByBiasMillis_eq Let_def)

lemma steer_maxFrequencyChangePPB:
  "maxFrequencyChangePPB (snd (snd (setFrequencyByBiasMillis conv bias Pk Ik (st, d)))) =
     maxFrequencyChangePPB d"
  by (simp add: setFrequencyByBiasMillis_eq Let_def)

lemma steer_next_reply:
  "next_reply (theBus (snd (snd (setFrequencyByBiasMillis conv bias Pk Ik (st, d))))) =
     script (theBus d) (Suc (length (history (theBus d))))"
  by (simp add: setFrequencyByBiasMillis_eq Let_def next_reply_def)


section \<open>Start-up lemmas\<close>


lemma begin_driver_eq:
  "begin_driver (Some b) d =
     (let n = length (history b);
          rd = ReadRegisterRegion kSfeSTP3593LFRegReadFrequencyControl 4;
          d0 = d\<lparr>theBus := b\<lparr>history := history b @ [Ping]\<rparr>\<rparr>;
          d1 = d\<lparr>theBus := b\<lparr>history := history b @ [Ping, rd]\<rparr>\<rparr>;
          d2 = d\<lparr>theBus := b\<lparr>history := history b @ [Ping, rd, rd]\<rparr>\<rparr>
      in if status (script b n) \<noteq> ksfTkErrOk then (ksfTkErrFail, d0)
         else if \<not> frame_accepted (script b (n + 1)) then (ksfTkErrFail, d1)
         else if \<not> frame_accepted (script b (n + 2))
           then (ksfTkErrFail,
                 d2\<lparr>frequencyControl := extractControlWord (take 4 (payload (script b (n + 1))))\<rparr>)
         else (ksfTkErrOk,
                 d2\<lparr>frequencyControl := extractControlWord (take 4 (payload (script b (n + 2))))\<rparr>))"
  by (simp add: begin_driver_def ping_def transact_def readFrequencyControlWord_eq Let_def
      next_reply_def)

lemma unat_extract_accepted:
  "frame_accepted r \<Longrightarrow>
     unat (extractControlWord (take 4 (payload r))) = big_endian_value (take 4 (payload r))"
  by (rule unat_extract) (simp add: frame_accepted_def)

section \<open>The register codec\<close>

text \<open>
  C8. Round trip of the codec: for every 32-bit value \<open>v\<close>, decoding the four bytes that
  the write path emits (limit, then bytes) succeeds and yields \<open>v\<close> limited to the
  maximum, that is \<open>min v 1000000\<close>; the range check of the decoder never rejects an
  encoded value. The same holds through the driver: a register read that is answered
  with the encoded bytes succeeds and commits that value.
\<close>

theorem codec_round_trip:
  "decodeControlWord (encodeControlWord v) = Some (min v kSfeSTP3593LFFreqControlMaxValue) \<and>
   unat (min v kSfeSTP3593LFFreqControlMaxValue) = min (unat v) 1000000 \<and>
   readFrequencyControlWord
     (d\<lparr>theBus := \<lparr>script = (\<lambda>n. BusReply ksfTkErrOk (encodeControlWord v)), history = h\<rparr>\<rparr>)
   = (True, d\<lparr>theBus := \<lparr>script = (\<lambda>n. BusReply ksfTkErrOk (encodeControlWord v)),
                           history = h @ [ReadRegisterRegion kSfeSTP3593LFRegReadFrequencyControl 4]\<rparr>,
                frequencyControl := min v kSfeSTP3593LFFreqControlMaxValue\<rparr>)"
proof -
  have dec: "decodeControlWord (encodeControlWord v) = Some (min v kSfeSTP3593LFFreqControlMaxValue)"
    using limit_le [of v]
    by (simp add: decodeControlWord_def encodeControlWord_def extract_bytes Let_def not_less
        limit_min)
  have len: "length (encodeControlWord v) = 4"
    by (simp add: encodeControlWord_def length_controlWordBytes)
  have m: "unat (min v kSfeSTP3593LFFreqControlMaxValue) = min (unat v) 1000000"
    using unat_limit [of v] by (simp only: limit_min)
  have rd: "readFrequencyControlWord
     (d\<lparr>theBus := \<lparr>script = (\<lambda>n. BusReply ksfTkErrOk (encodeControlWord v)), history = h\<rparr>\<rparr>)
   = (True, d\<lparr>theBus := \<lparr>script = (\<lambda>n. BusReply ksfTkErrOk (encodeControlWord v)),
                           history = h @ [ReadRegisterRegion kSfeSTP3593LFRegReadFrequencyControl 4]\<rparr>,
                frequencyControl := min v kSfeSTP3593LFFreqControlMaxValue\<rparr>)"
    by (simp add: readFrequencyControlWord_raw next_reply_def Let_def dec len)
  from dec m rd show ?thesis by blast
qed

text \<open>
  C7. For every 32-bit \<open>freq\<close>, \<open>setFrequencyControlWord\<close> limits \<open>freq\<close> to 1000000 and
  sends exactly four bytes, most significant first, of the limited value to the DAC
  register; it fails only when the bus write fails, and on success it stores the limited
  value. A value above the maximum gives the same bytes and the same outcome as 1000000.
\<close>

theorem setFrequencyControlWord_encoding:
  "length (encodeControlWord freq) = 4 \<and>
   big_endian_value (encodeControlWord freq) = min (unat freq) 1000000 \<and>
   history (theBus (snd (setFrequencyControlWord freq d))) =
     history (theBus d) @ [WriteRegisterRegion kSfeSTP3593LFRegWriteDAC (encodeControlWord freq)] \<and>
   fst (setFrequencyControlWord freq d) = (status (next_reply (theBus d)) = ksfTkErrOk) \<and>
   (fst (setFrequencyControlWord freq d) \<longrightarrow>
      unat (frequencyControl (snd (setFrequencyControlWord freq d))) = min (unat freq) 1000000) \<and>
   (freq > kSfeSTP3593LFFreqControlMaxValue \<longrightarrow>
      encodeControlWord freq = encodeControlWord kSfeSTP3593LFFreqControlMaxValue \<and>
      setFrequencyControlWord freq d = setFrequencyControlWord kSfeSTP3593LFFreqControlMaxValue d)"
proof -
  have 1: "length (encodeControlWord freq) = 4"
    by (simp add: encodeControlWord_def length_controlWordBytes)
  have 2: "big_endian_value (encodeControlWord freq) = min (unat freq) 1000000"
    by (simp only: encodeControlWord_def big_endian_bytes unat_limit)
  have 3: "history (theBus (snd (setFrequencyControlWord freq d))) =
     history (theBus d) @ [WriteRegisterRegion kSfeSTP3593LFRegWriteDAC (encodeControlWord freq)]"
    by (simp add: setFrequencyControlWord_eq Let_def)
  have 4: "fst (setFrequencyControlWord freq d) = (status (next_reply (theBus d)) = ksfTkErrOk)"
    by (simp add: setFrequencyControlWord_eq Let_def)
  have 5: "fst (setFrequencyControlWord freq d) \<longrightarrow>
      unat (frequencyControl (snd (setFrequencyControlWord freq d))) = min (unat freq) 1000000"
    by (simp add: setFrequencyControlWord_eq Let_def unat_limit)
  have l: "limitControlWord freq = limitControlWord kSfeSTP3593LFFreqControlMaxValue"
    if "freq > kSfeSTP3593LFFreqControlMaxValue"
    using that by (simp add: limitControlWord_def)
  have 6: "freq > kSfeSTP3593LFFreqControlMaxValue \<longrightarrow>
      encodeControlWord freq = encodeControlWord kSfeSTP3593LFFreqControlMaxValue \<and>
      setFrequencyControlWord freq d = setFrequencyControlWord kSfeSTP3593LFFreqControlMaxValue d"
    using l by (simp add: setFrequencyControlWord_eq encodeControlWord_def Let_def)
  from 1 2 3 4 5 6 show ?thesis by blast
qed

text \<open>Writing 1500000 sends and stores 1000000.\<close>

theorem setFrequencyControlWord_encoding_witness:
  "(1500000 :: 32 word) > kSfeSTP3593LFFreqControlMaxValue \<and>
   fst (setFrequencyControlWord 1500000 (driver_with (scripted_bus [BusReply ksfTkErrOk []]) 500000 400)) \<and>
   encodeControlWord 1500000 = [0x00, 0x0F, 0x42, 0x40] \<and>
   big_endian_value (encodeControlWord 1500000) = 1000000 \<and>
   unat (frequencyControl (snd (setFrequencyControlWord 1500000
           (driver_with (scripted_bus [BusReply ksfTkErrOk []]) 500000 400)))) = 1000000 \<and>
   setFrequencyControlWord 1500000 (driver_with (scripted_bus [BusReply ksfTkErrOk []]) 500000 400) =
   setFrequencyControlWord kSfeSTP3593LFFreqControlMaxValue
     (driver_with (scripted_bus [BusReply ksfTkErrOk []]) 500000 400)"
proof -
  have gt: "(1500000 :: 32 word) > kSfeSTP3593LFFreqControlMaxValue"
    by (simp add: kSfeSTP3593LFFreqControlMaxValue_def)
  have ok: "status (next_reply (theBus (driver_with (scripted_bus [BusReply ksfTkErrOk []]) 500000 400))) = ksfTkErrOk"
    by (simp add: next_reply_def driver_with_def scripted_bus_def)
  have enc: "encodeControlWord 1500000 = [0x00, 0x0F, 0x42, 0x40]"
    by (simp add: encodeControlWord_def limitControlWord_def controlWordBytes_def
        kSfeSTP3593LFFreqControlMaxValue_def)
  have v: "min (unat (1500000 :: 32 word)) 1000000 = 1000000"
    by simp
  note t = setFrequencyControlWord_encoding
      [of 1500000 "driver_with (scripted_bus [BusReply ksfTkErrOk []]) 500000 400"]
  show ?thesis
    using gt ok enc t unfolding v by blast
qed

text \<open>
  C6. \<open>readFrequencyControlWord\<close> fails and leaves the cached control word as it was
  when the bus read fails, when fewer than four bytes come back, or when the bytes, most
  significant first, denote a value above 1000000; in every other case it succeeds and
  commits the decoded value.
\<close>

theorem readFrequencyControlWord_cases:
  "(status (next_reply (theBus d)) \<noteq> ksfTkErrOk \<longrightarrow>
      \<not> fst (readFrequencyControlWord d) \<and>
      frequencyControl (snd (readFrequencyControlWord d)) = frequencyControl d) \<and>
   (length (payload (next_reply (theBus d))) < 4 \<longrightarrow>
      \<not> fst (readFrequencyControlWord d) \<and>
      frequencyControl (snd (readFrequencyControlWord d)) = frequencyControl d) \<and>
   (big_endian_value (take 4 (payload (next_reply (theBus d)))) > 1000000 \<longrightarrow>
      \<not> fst (readFrequencyControlWord d) \<and>
      frequencyControl (snd (readFrequencyControlWord d)) = frequencyControl d) \<and>
   (\<not> (status (next_reply (theBus d)) \<noteq> ksfTkErrOk \<or>
        length (payload (next_reply (theBus d))) < 4 \<or>
        big_endian_value (take 4 (payload (next_reply (theBus d)))) > 1000000) \<longrightarrow>
      fst (readFrequencyControlWord d) \<and>
      unat (frequencyControl (snd (readFrequencyControlWord d))) =
        big_endian_value (take 4 (payload (next_reply (theBus d)))))"
proof (cases "frame_accepted (next_reply (theBus d))")
  case True
  then have "length (take 4 (payload (next_reply (theBus d)))) = 4"
    by (simp add: frame_accepted_def)
  from unat_extract [OF this] True show ?thesis
    by (simp add: readFrequencyControlWord_eq Let_def) (simp add: frame_accepted_def)
next
  case False
  then show ?thesis
    by (simp add: readFrequencyControlWord_eq Let_def) (auto simp add: frame_accepted_def)
qed

text \<open>A read that returns three bytes fails and keeps the cached control word.\<close>

theorem readFrequencyControlWord_cases_witness:
  "length (payload (next_reply (theBus (driver_with (scripted_bus [BusReply ksfTkErrOk [0x00, 0x07, 0xA1]]) 123456 400)))) < 4 \<and>
   \<not> fst (readFrequencyControlWord (driver_with (scripted_bus [BusReply ksfTkErrOk [0x00, 0x07, 0xA1]]) 123456 400)) \<and>
   frequencyControl (snd (readFrequencyControlWord (driver_with (scripted_bus [BusReply ksfTkErrOk [0x00, 0x07, 0xA1]]) 123456 400))) = 123456"
proof -
  have short: "length (payload (next_reply (theBus (driver_with (scripted_bus [BusReply ksfTkErrOk [0x00, 0x07, 0xA1]]) 123456 400)))) < 4"
    by (simp add: next_reply_def driver_with_def scripted_bus_def)
  have c: "frequencyControl (driver_with (scripted_bus [BusReply ksfTkErrOk [0x00, 0x07, 0xA1]]) 123456 400) = 123456"
    by (simp add: driver_with_def)
  show ?thesis
    using short c
      readFrequencyControlWord_cases [of "driver_with (scripted_bus [BusReply ksfTkErrOk [0x00, 0x07, 0xA1]]) 123456 400"]
    by metis
qed

section \<open>Start-up\<close>


text \<open>
  C4, as the code has it. \<open>begin\<close> with a null bus fails and changes nothing.
  Otherwise it pings the device and then reads the control-word register at most twice:
  not at all when the ping fails, once when the first read is not accepted, twice
  otherwise. It reports success exactly when the ping and both reads succeed, and then
  the cached control word is the value of the second read. Each accepted read commits
  its value: when the first read is accepted and the second is not, the call fails and
  the cached control word is the value of the first read. When the ping or the first
  read fails the cached control word is unchanged.
\<close>


theorem begin_reads_twice:
  "begin_driver None d = (ksfTkErrFail, d) \<and>
   (fst (begin_driver (Some b) d) = ksfTkErrOk) =
     (status (script b (length (history b))) = ksfTkErrOk \<and>
      frame_accepted (script b (length (history b) + 1)) \<and>
      frame_accepted (script b (length (history b) + 2))) \<and>
   register_reads (history (theBus (snd (begin_driver (Some b) d)))) =
     register_reads (history b) +
     (if status (script b (length (history b))) \<noteq> ksfTkErrOk then 0
      else if \<not> frame_accepted (script b (length (history b) + 1)) then 1 else 2) \<and>
   (fst (begin_driver (Some b) d) = ksfTkErrOk \<longrightarrow>
      unat (frequencyControl (snd (begin_driver (Some b) d))) =
        big_endian_value (take 4 (payload (script b (length (history b) + 2))))) \<and>
   (status (script b (length (history b))) = ksfTkErrOk \<and>
    frame_accepted (script b (length (history b) + 1)) \<and>
    \<not> frame_accepted (script b (length (history b) + 2)) \<longrightarrow>
      unat (frequencyControl (snd (begin_driver (Some b) d))) =
        big_endian_value (take 4 (payload (script b (length (history b) + 1))))) \<and>
   (status (script b (length (history b))) \<noteq> ksfTkErrOk \<or>
    \<not> frame_accepted (script b (length (history b) + 1)) \<longrightarrow>
      frequencyControl (snd (begin_driver (Some b) d)) = frequencyControl d)"
proof -
  have 0: "begin_driver None d = (ksfTkErrFail, d)"
    by (simp add: begin_driver_def)
  show ?thesis
    unfolding begin_driver_eq Let_def
    using 0 by (simp add: register_reads_def unat_extract_accepted)
qed

text \<open>
  A start-up where the first read delivers 1 and the second 500000: success, two reads,
  500000 cached.
\<close>


theorem begin_reads_twice_witness:
  "fst (begin_driver
         (Some (scripted_bus [BusReply ksfTkErrOk [], BusReply ksfTkErrOk [0x00, 0x00, 0x00, 0x01],
                              BusReply ksfTkErrOk [0x00, 0x07, 0xA1, 0x20]]))
         (driver_with (scripted_bus []) 0 400)) = ksfTkErrOk \<and>
   unat (frequencyControl (snd (begin_driver
         (Some (scripted_bus [BusReply ksfTkErrOk [], BusReply ksfTkErrOk [0x00, 0x00, 0x00, 0x01],
                              BusReply ksfTkErrOk [0x00, 0x07, 0xA1, 0x20]]))
         (driver_with (scripted_bus []) 0 400)))) = 500000 \<and>
   register_reads (history (theBus (snd (begin_driver
         (Some (scripted_bus [BusReply ksfTkErrOk [], BusReply ksfTkErrOk [0x00, 0x00, 0x00, 0x01],
                              BusReply ksfTkErrOk [0x00, 0x07, 0xA1, 0x20]]))
         (driver_with (scripted_bus []) 0 400))))) = 2"
proof -
  let ?b = "scripted_bus [BusReply ksfTkErrOk [], BusReply ksfTkErrOk [0x00, 0x00, 0x00, 0x01],
                          BusReply ksfTkErrOk [0x00, 0x07, 0xA1, 0x20]]"
  have r0: "script ?b (length (history ?b)) = BusReply ksfTkErrOk []"
    and r1: "script ?b (length (history ?b) + 1) = BusReply ksfTkErrOk [0x00, 0x00, 0x00, 0x01]"
    and r2: "script ?b (length (history ?b) + 2) = BusReply ksfTkErrOk [0x00, 0x07, 0xA1, 0x20]"
    and h: "register_reads (history ?b) = 0"
    by (simp_all add: scripted_bus_def register_reads_def)
  have a1: "frame_accepted (BusReply ksfTkErrOk [0x00, 0x00, 0x00, 0x01])"
    and a2: "frame_accepted (BusReply ksfTkErrOk [0x00, 0x07, 0xA1, 0x20])"
    by (simp_all add: frame_accepted_def big_endian_value_def)
  have v: "big_endian_value [0x00, 0x07, 0xA1, 0x20] = 500000"
    by (simp add: big_endian_value_def)
  show ?thesis
    using begin_reads_twice [of "driver_with (scripted_bus []) 0 400" ?b]
    unfolding r0 r1 r2 h by (simp add: a1 a2 v)
qed

text \<open>
  C4 as stated fails: the cached control word is 0, the ping and the first read (500000)
  succeed and the second read fails on the bus. \<open>begin\<close> reports failure, and the cached
  control word has become 500000, the value of the first read.
\<close>


theorem begin_first_read_committed_counterexample:
  "fst (begin_driver
         (Some (scripted_bus [BusReply ksfTkErrOk [], BusReply ksfTkErrOk [0x00, 0x07, 0xA1, 0x20],
                              BusReply ksfTkErrFail []]))
         (driver_with (scripted_bus []) 0 400)) = ksfTkErrFail \<and>
   frequencyControl (driver_with (scripted_bus []) 0 400) = 0 \<and>
   frequencyControl (snd (begin_driver
         (Some (scripted_bus [BusReply ksfTkErrOk [], BusReply ksfTkErrOk [0x00, 0x07, 0xA1, 0x20],
                              BusReply ksfTkErrFail []]))
         (driver_with (scripted_bus []) 0 400))) = 500000 \<and>
   history (theBus (snd (begin_driver
         (Some (scripted_bus [BusReply ksfTkErrOk [], BusReply ksfTkErrOk [0x00, 0x07, 0xA1, 0x20],
                              BusReply ksfTkErrFail []]))
         (driver_with (scripted_bus []) 0 400)))) =
     [Ping, ReadRegisterRegion 0x41 4, ReadRegisterRegion 0x41 4]"
  by (simp add: begin_driver_def ping_def transact_def readFrequencyControlWord_def
      readRegisterRegion_def decodeControlWord_def extractControlWord_def Let_def
      scripted_bus_def driver_with_def kSfeSTP3593LFFreqControlMaxValue_def
      kSfeSTP3593LFRegReadFrequencyControl_def)

section \<open>The steering computation\<close>





text \<open>
  C2, as the code has it. With a limit of 3 ppb, the call
  \<open>setFrequencyByBiasMillis 200e-6 1 0\<close> computes an error of - 200e-9 s, a required
  change of - 250000 steps, limits it to - 3750 (the maximum being 3750) and takes
  \<open>P = - 3750\<close>. When the integrator equals the cached control word \<open>C\<close> (as on the first
  call, which seeds it from \<open>C\<close>), \<open>C\<close> is between 3750 and 1000000, and the bus write
  succeeds, the new cached control word is \<open>C - 3750\<close>, on every platform.
\<close>


theorem documented_example:
  assumes ppb: "maxFrequencyChangePPB d = Fin 3"
    and sync: "\<not> initialized st \<or> I st = uint32_to_double (frequencyControl d)"
    and lo: "3750 \<le> frequencyControl d"
    and hi: "frequencyControl d \<le> 1000000"
    and ok: "status (next_reply (theBus d)) = ksfTkErrOk"
  shows "biasToError (Fin (200 / 10 ^ 6)) = Fin (- (200 / 10 ^ 9)) \<and>
         biasToLSBs (Fin (200 / 10 ^ 6)) = Fin (- 250000) \<and>
         maxChangeInLSBs (maxFrequencyChangePPB d) = Fin 3750 \<and>
         requiredChangeInLSBs (Fin (200 / 10 ^ 6)) (maxFrequencyChangePPB d) = Fin (- 3750) \<and>
         dmul (requiredChangeInLSBs (Fin (200 / 10 ^ 6)) (maxFrequencyChangePPB d)) (Fin 1)
           = Fin (- 3750) \<and>
         fst (setFrequencyByBiasMillis conv (Fin (200 / 10 ^ 6)) (Fin 1) (Fin 0) (st, d)) \<and>
         frequencyControl (snd (snd (setFrequencyByBiasMillis conv
             (Fin (200 / 10 ^ 6)) (Fin 1) (Fin 0) (st, d))))
           = frequencyControl d - 3750"
proof -
  have 1: "biasToError (Fin (200 / 10 ^ 6)) = Fin (- (200 / 10 ^ 9))"
    by (simp add: biasToError_def dsub_def)
  have 2: "biasToLSBs (Fin (200 / 10 ^ 6)) = Fin (- 250000)"
    by (simp add: biasToLSBs_Fin)
  have 3: "maxChangeInLSBs (maxFrequencyChangePPB d) = Fin 3750"
    by (simp add: ppb maxChange_Fin)
  have 4: "requiredChangeInLSBs (Fin (200 / 10 ^ 6)) (maxFrequencyChangePPB d) = Fin (- 3750)"
    by (simp only: ppb change_example)
  have 5: "dmul (requiredChangeInLSBs (Fin (200 / 10 ^ 6)) (maxFrequencyChangePPB d)) (Fin 1)
           = Fin (- 3750)"
    unfolding 4 by simp
  have s: "I (seedIntegrator st d) = uint32_to_double (frequencyControl d)"
    using sync by (auto simp add: seed_I)
  have e: "dadd (dmul (Fin (- 3750)) (Fin 1))
             (dadd (uint32_to_double (frequencyControl d)) (dmul (Fin (- 3750)) (Fin 0)))
           = dadd (Fin (- 3750)) (uint32_to_double (frequencyControl d))"
    by (simp add: uint32_to_double_def)
  have w: "double_to_uint32 conv (d_round (dadd (dmul (Fin (- 3750)) (Fin 1))
             (dadd (uint32_to_double (frequencyControl d)) (dmul (Fin (- 3750)) (Fin 0)))))
           = frequencyControl d - 3750"
    unfolding e by (rule step_down [OF lo])
  have l: "limitControlWord (frequencyControl d - 3750) = frequencyControl d - 3750"
    by (rule limit_in_range [OF step_down_le [OF lo hi]])
  have 6: "fst (setFrequencyByBiasMillis conv (Fin (200 / 10 ^ 6)) (Fin 1) (Fin 0) (st, d))"
    unfolding steer_fst by (rule ok)
  have 7: "frequencyControl (snd (snd (setFrequencyByBiasMillis conv
             (Fin (200 / 10 ^ 6)) (Fin 1) (Fin 0) (st, d))))
           = frequencyControl d - 3750"
    unfolding steer_frequencyControl 4 s w l using ok by simp
  from 1 2 3 4 5 6 7 show ?thesis by blast
qed

text \<open>
  The first call after start-up with a cached control word of 500000 commits 496250.
\<close>


theorem documented_example_witness:
  "maxFrequencyChangePPB (driver_with (scripted_bus [BusReply ksfTkErrOk []]) 500000 3) = Fin 3 \<and>
   fst (setFrequencyByBiasMillis saturating_conversion (Fin (200 / 10 ^ 6)) (Fin 1) (Fin 0)
          (steering_statics_startup, driver_with (scripted_bus [BusReply ksfTkErrOk []]) 500000 3)) \<and>
   frequencyControl (snd (snd (setFrequencyByBiasMillis saturating_conversion
          (Fin (200 / 10 ^ 6)) (Fin 1) (Fin 0)
          (steering_statics_startup, driver_with (scripted_bus [BusReply ksfTkErrOk []]) 500000 3))))
     = 496250"
proof -
  let ?d = "driver_with (scripted_bus [BusReply ksfTkErrOk []]) 500000 3"
  have ppb: "maxFrequencyChangePPB ?d = Fin 3" by (simp add: driver_with_def)
  have sync: "\<not> initialized steering_statics_startup \<or>
        I steering_statics_startup = uint32_to_double (frequencyControl ?d)"
    by (simp add: steering_statics_startup_def)
  have c: "frequencyControl ?d = 500000" by (simp add: driver_with_def)
  have lo: "3750 \<le> frequencyControl ?d" and hi: "frequencyControl ?d \<le> 1000000"
    unfolding c by simp_all
  have ok: "status (next_reply (theBus ?d)) = ksfTkErrOk"
    by (simp add: next_reply_def driver_with_def scripted_bus_def)
  show ?thesis
    using ppb documented_example [OF ppb sync lo hi ok, of saturating_conversion] unfolding c by simp
qed

text \<open>
  C2 as stated fails on a repeated call. After the first call (500000 to 496250) the
  integrator is still 500000, since \<open>Ik = 0\<close>. The same call again, with the cached
  control word now 496250 and a successful write, commits \<open>round (- 3750 + 500000)\<close>,
  that is 496250 again and not 496250 - 3750.
\<close>


theorem documented_example_repeated_counterexample:
  "fst (setFrequencyByBiasMillis saturating_conversion (Fin (200 / 10 ^ 6)) (Fin 1) (Fin 0)
     (steering_statics_startup,
      driver_with (scripted_bus [BusReply ksfTkErrOk [], BusReply ksfTkErrOk []]) 500000 3)) \<and>
   maxFrequencyChangePPB (snd (snd (setFrequencyByBiasMillis saturating_conversion
     (Fin (200 / 10 ^ 6)) (Fin 1) (Fin 0)
     (steering_statics_startup,
      driver_with (scripted_bus [BusReply ksfTkErrOk [], BusReply ksfTkErrOk []]) 500000 3))))
     = Fin 3 \<and>
   frequencyControl (snd (snd (setFrequencyByBiasMillis saturating_conversion
     (Fin (200 / 10 ^ 6)) (Fin 1) (Fin 0)
     (steering_statics_startup,
      driver_with (scripted_bus [BusReply ksfTkErrOk [], BusReply ksfTkErrOk []]) 500000 3))))
     = 496250 \<and>
   fst (setFrequencyByBiasMillis saturating_conversion (Fin (200 / 10 ^ 6)) (Fin 1) (Fin 0)
     (fst (snd (setFrequencyByBiasMillis saturating_conversion (Fin (200 / 10 ^ 6)) (Fin 1) (Fin 0)
        (steering_statics_startup,
         driver_with (scripted_bus [BusReply ksfTkErrOk [], BusReply ksfTkErrOk []]) 500000 3))),
      snd (snd (setFrequencyByBiasMillis saturating_conversion (Fin (200 / 10 ^ 6)) (Fin 1) (Fin 0)
        (steering_statics_startup,
         driver_with (scripted_bus [BusReply ksfTkErrOk [], BusReply ksfTkErrOk []]) 500000 3))))) \<and>
   frequencyControl (snd (snd (setFrequencyByBiasMillis saturating_conversion
     (Fin (200 / 10 ^ 6)) (Fin 1) (Fin 0)
     (fst (snd (setFrequencyByBiasMillis saturating_conversion (Fin (200 / 10 ^ 6)) (Fin 1) (Fin 0)
        (steering_statics_startup,
         driver_with (scripted_bus [BusReply ksfTkErrOk [], BusReply ksfTkErrOk []]) 500000 3))),
      snd (snd (setFrequencyByBiasMillis saturating_conversion (Fin (200 / 10 ^ 6)) (Fin 1) (Fin 0)
        (steering_statics_startup,
         driver_with (scripted_bus [BusReply ksfTkErrOk [], BusReply ksfTkErrOk []]) 500000 3)))))))
     = 496250 \<and>
   (496250 :: 32 word) \<noteq> 496250 - 3750"
proof -
  let ?d = "driver_with (scripted_bus [BusReply ksfTkErrOk [], BusReply ksfTkErrOk []]) 500000 3"
  let ?r = "setFrequencyByBiasMillis saturating_conversion (Fin (200 / 10 ^ 6)) (Fin 1) (Fin 0)
              (steering_statics_startup, ?d)"
  have p: "maxFrequencyChangePPB ?d = Fin 3" by (simp add: driver_with_def)
  have c: "requiredChangeInLSBs (Fin (200 / 10 ^ 6)) (maxFrequencyChangePPB ?d) = Fin (- 3750)"
    unfolding p by (rule change_example)
  have ok: "status (next_reply (theBus ?d)) = ksfTkErrOk"
    by (simp add: next_reply_def driver_with_def scripted_bus_def)
  have s: "I (seedIntegrator steering_statics_startup ?d) = Fin 500000"
    by (simp add: seed_I steering_statics_startup_def driver_with_def uint32_to_double_def)
  have w: "limitControlWord (double_to_uint32 saturating_conversion (d_round
             (dadd (dmul (Fin (- 3750)) (Fin 1)) (dadd (Fin 500000) (dmul (Fin (- 3750)) (Fin 0))))))
           = 496250"
    by (simp add: c_round_def double_to_uint32_def limitControlWord_def
        kSfeSTP3593LFFreqControlMaxValue_def)
  have ok1: "fst ?r" unfolding steer_fst by (rule ok)
  have p1: "maxFrequencyChangePPB (snd (snd ?r)) = Fin 3"
    unfolding steer_maxFrequencyChangePPB by (rule p)
  have f1: "frequencyControl (snd (snd ?r)) = 496250"
    unfolding steer_frequencyControl c s w using ok by simp
  have i1: "I (fst (snd ?r)) = Fin 500000"
    unfolding steer_I c s by simp
  have s1: "I (seedIntegrator (fst (snd ?r)) (snd (snd ?r))) = Fin 500000"
    using steer_initialized [of saturating_conversion "Fin (200 / 10 ^ 6)" "Fin 1" "Fin 0"
        steering_statics_startup ?d] i1
    by (simp add: seed_I)
  have c1: "requiredChangeInLSBs (Fin (200 / 10 ^ 6)) (maxFrequencyChangePPB (snd (snd ?r)))
              = Fin (- 3750)"
    unfolding p1 by (rule change_example)
  have ok2: "status (next_reply (theBus (snd (snd ?r)))) = ksfTkErrOk"
    unfolding steer_next_reply by (simp add: driver_with_def scripted_bus_def)
  have r2: "fst (setFrequencyByBiasMillis saturating_conversion (Fin (200 / 10 ^ 6)) (Fin 1) (Fin 0)
              (fst (snd ?r), snd (snd ?r)))"
    unfolding steer_fst [of _ _ _ _ "fst (snd ?r)" "snd (snd ?r)"] by (rule ok2)
  have f2: "frequencyControl (snd (snd (setFrequencyByBiasMillis saturating_conversion
              (Fin (200 / 10 ^ 6)) (Fin 1) (Fin 0) (fst (snd ?r), snd (snd ?r))))) = 496250"
    unfolding steer_frequencyControl [of _ _ _ _ "fst (snd ?r)" "snd (snd ?r)"] c1 s1 w
    using ok2 by simp
  have ne: "(496250 :: 32 word) \<noteq> 496250 - 3750" by simp
  from ok1 p1 f1 r2 f2 ne show ?thesis by blast
qed




text \<open>
  C5. When the bus write fails, \<open>setFrequencyByBiasMillis\<close> returns failure and the
  cached control word is unchanged, but the integrator keeps the advance
  \<open>dI = requiredChangeInLSBs * Ik\<close> that was added before the write, for every bias,
  \<open>Pk\<close> and \<open>Ik\<close>.
\<close>


theorem write_failure_keeps_advance:
  assumes "status (next_reply (theBus d)) \<noteq> ksfTkErrOk"
  shows "\<not> fst (setFrequencyByBiasMillis conv bias Pk Ik (st, d)) \<and>
         frequencyControl (snd (snd (setFrequencyByBiasMillis conv bias Pk Ik (st, d))))
           = frequencyControl d \<and>
         I (fst (snd (setFrequencyByBiasMillis conv bias Pk Ik (st, d)))) =
           dadd (if initialized st then I st else uint32_to_double (frequencyControl d))
                (dmul (requiredChangeInLSBs bias (maxFrequencyChangePPB d)) Ik) \<and>
         initialized (fst (snd (setFrequencyByBiasMillis conv bias Pk Ik (st, d))))"
  using assms by (simp add: setFrequencyByBiasMillis_eq Let_def seed_I)

text \<open>
  A failed write on the first call with \<open>Ik = 1 / 10\<close>: the cached control word
  stays 500000, the integrator is 500000 - 375.
\<close>


theorem write_failure_keeps_advance_witness:
  "status (next_reply (theBus (driver_with (scripted_bus [BusReply ksfTkErrFail []]) 500000 3)))
     \<noteq> ksfTkErrOk \<and>
   \<not> fst (setFrequencyByBiasMillis saturating_conversion (Fin (200 / 10 ^ 6)) (Fin 1) (Fin (1 / 10))
          (steering_statics_startup, driver_with (scripted_bus [BusReply ksfTkErrFail []]) 500000 3)) \<and>
   frequencyControl (snd (snd (setFrequencyByBiasMillis saturating_conversion
          (Fin (200 / 10 ^ 6)) (Fin 1) (Fin (1 / 10))
          (steering_statics_startup, driver_with (scripted_bus [BusReply ksfTkErrFail []]) 500000 3))))
     = 500000 \<and>
   I (fst (snd (setFrequencyByBiasMillis saturating_conversion
          (Fin (200 / 10 ^ 6)) (Fin 1) (Fin (1 / 10))
          (steering_statics_startup, driver_with (scripted_bus [BusReply ksfTkErrFail []]) 500000 3))))
     = Fin 499625"
proof -
  let ?d = "driver_with (scripted_bus [BusReply ksfTkErrFail []]) 500000 3"
  have h: "status (next_reply (theBus ?d)) \<noteq> ksfTkErrOk"
    by (simp add: next_reply_def driver_with_def scripted_bus_def)
  have p: "maxFrequencyChangePPB ?d = Fin 3" by (simp add: driver_with_def)
  have s: "initialized steering_statics_startup = False" "frequencyControl ?d = 500000"
    "uint32_to_double 500000 = Fin 500000"
    by (simp_all add: steering_statics_startup_def driver_with_def uint32_to_double_def)
  note t = write_failure_keeps_advance [OF h, of saturating_conversion "Fin (200 / 10 ^ 6)" "Fin 1"
      "Fin (1 / 10)" steering_statics_startup, unfolded p change_example s]
  show ?thesis using h t by simp
qed

text \<open>
  C9, as the code has it. The integrator and its flag are local statics of the
  function, one pair shared by all driver instances. After a call on any instance \<open>a\<close>
  the pair is initialised, and the next call, on any instance \<open>b\<close>, continues from the
  integrator that the call on \<open>a\<close> left: it advances that value and writes the word
  computed from it to the bus of \<open>b\<close>, whatever the cached control word of \<open>b\<close> is.
\<close>


theorem integrator_shared_between_instances:
  "initialized (fst (snd (setFrequencyByBiasMillis conv bias1 Pk1 Ik1 (st, a)))) \<and>
   I (fst (snd (setFrequencyByBiasMillis conv bias2 Pk2 Ik2
        (fst (snd (setFrequencyByBiasMillis conv bias1 Pk1 Ik1 (st, a))), b)))) =
     dadd (I (fst (snd (setFrequencyByBiasMillis conv bias1 Pk1 Ik1 (st, a)))))
       (dmul (requiredChangeInLSBs bias2 (maxFrequencyChangePPB b)) Ik2) \<and>
   history (theBus (snd (snd (setFrequencyByBiasMillis conv bias2 Pk2 Ik2
        (fst (snd (setFrequencyByBiasMillis conv bias1 Pk1 Ik1 (st, a))), b))))) =
     history (theBus b) @
     [WriteRegisterRegion kSfeSTP3593LFRegWriteDAC (encodeControlWord (double_to_uint32 conv (d_round
        (dadd (dmul (requiredChangeInLSBs bias2 (maxFrequencyChangePPB b)) Pk2)
          (dadd (I (fst (snd (setFrequencyByBiasMillis conv bias1 Pk1 Ik1 (st, a)))))
             (dmul (requiredChangeInLSBs bias2 (maxFrequencyChangePPB b)) Ik2))))))]"
proof -
  let ?st1 = "fst (snd (setFrequencyByBiasMillis conv bias1 Pk1 Ik1 (st, a)))"
  have i: "initialized ?st1" by (rule steer_initialized)
  then have s: "I (seedIntegrator ?st1 b) = I ?st1" by (simp add: seed_I)
  show ?thesis
    unfolding steer_I [of conv bias2 Pk2 Ik2 ?st1 b] steer_history [of conv bias2 Pk2 Ik2 ?st1 b] s
    using i by simp
qed

text \<open>
  C9 as stated fails. Two drivers with cached control words 100000 and 900000, each on
  its own bus. Called first, the second driver moves to 896250. Called after a call on
  the first driver, it moves to 96250: it used the integrator seeded by the other
  instance.
\<close>


theorem integrator_shared_counterexample:
  "frequencyControl (snd (snd (setFrequencyByBiasMillis saturating_conversion
      (Fin (200 / 10 ^ 6)) (Fin 1) (Fin 0)
      (steering_statics_startup, driver_with (scripted_bus [BusReply ksfTkErrOk []]) 900000 3))))
     = 896250 \<and>
   frequencyControl (snd (snd (setFrequencyByBiasMillis saturating_conversion
      (Fin (200 / 10 ^ 6)) (Fin 1) (Fin 0)
      (fst (snd (setFrequencyByBiasMillis saturating_conversion (Fin (200 / 10 ^ 6)) (Fin 1) (Fin 0)
         (steering_statics_startup, driver_with (scripted_bus [BusReply ksfTkErrOk []]) 100000 3))),
       driver_with (scripted_bus [BusReply ksfTkErrOk []]) 900000 3))))
     = 96250"
proof -
  let ?a = "driver_with (scripted_bus [BusReply ksfTkErrOk []]) 100000 3"
  let ?b = "driver_with (scripted_bus [BusReply ksfTkErrOk []]) 900000 3"
  let ?st1 = "fst (snd (setFrequencyByBiasMillis saturating_conversion
      (Fin (200 / 10 ^ 6)) (Fin 1) (Fin 0) (steering_statics_startup, ?a)))"
  have pa: "maxFrequencyChangePPB ?a = Fin 3" and pb: "maxFrequencyChangePPB ?b = Fin 3"
    by (simp_all add: driver_with_def)
  have ca: "requiredChangeInLSBs (Fin (200 / 10 ^ 6)) (maxFrequencyChangePPB ?a) = Fin (- 3750)"
    unfolding pa by (rule change_example)
  have cb: "requiredChangeInLSBs (Fin (200 / 10 ^ 6)) (maxFrequencyChangePPB ?b) = Fin (- 3750)"
    unfolding pb by (rule change_example)
  have ok: "status (next_reply (theBus ?b)) = ksfTkErrOk"
    by (simp add: next_reply_def driver_with_def scripted_bus_def)
  have sa: "I (seedIntegrator steering_statics_startup ?a) = Fin 100000"
    by (simp add: seed_I steering_statics_startup_def driver_with_def uint32_to_double_def)
  have sb: "I (seedIntegrator steering_statics_startup ?b) = Fin 900000"
    by (simp add: seed_I steering_statics_startup_def driver_with_def uint32_to_double_def)
  have i1: "I ?st1 = Fin 100000"
    unfolding steer_I ca sa by simp
  have s1: "I (seedIntegrator ?st1 ?b) = Fin 100000"
    using steer_initialized [of saturating_conversion "Fin (200 / 10 ^ 6)" "Fin 1" "Fin 0"
        steering_statics_startup ?a] i1
    by (simp add: seed_I)
  have w1: "limitControlWord (double_to_uint32 saturating_conversion (d_round
              (dadd (dmul (Fin (- 3750)) (Fin 1)) (dadd (Fin 900000) (dmul (Fin (- 3750)) (Fin 0))))))
            = 896250"
    by (simp add: c_round_def double_to_uint32_def limitControlWord_def
        kSfeSTP3593LFFreqControlMaxValue_def)
  have w2: "limitControlWord (double_to_uint32 saturating_conversion (d_round
              (dadd (dmul (Fin (- 3750)) (Fin 1)) (dadd (Fin 100000) (dmul (Fin (- 3750)) (Fin 0))))))
            = 96250"
    by (simp add: c_round_def double_to_uint32_def limitControlWord_def
        kSfeSTP3593LFFreqControlMaxValue_def)
  have alone: "frequencyControl (snd (snd (setFrequencyByBiasMillis saturating_conversion
      (Fin (200 / 10 ^ 6)) (Fin 1) (Fin 0) (steering_statics_startup, ?b)))) = 896250"
    unfolding steer_frequencyControl cb sb w1 using ok by simp
  have after: "frequencyControl (snd (snd (setFrequencyByBiasMillis saturating_conversion
      (Fin (200 / 10 ^ 6)) (Fin 1) (Fin 0) (?st1, ?b)))) = 96250"
    unfolding steer_frequencyControl [of _ _ _ _ ?st1 ?b] cb s1 w2 using ok by simp
  from alone after show ?thesis by (rule conjI)
qed



end
